theory Spec2Isabelle
  imports
    Main
    "HOL-Library.Word"
    "HOL-Library.Multiset"
    "HOL-Library.Log_Nat"
    "HOL-Library.Char_ord"
    "HOL-Library.List_Lexorder"
begin

section \<open>The task collector of the Elasticsearch exporter (collector/tasks.go)\<close>

text \<open>
  The development follows \<^verbatim>\<open>collector/tasks.go\<close>: the aggregation of task records
  into counts per action (\<^verbatim>\<open>AggregateTasks\<close>), the fetch of one snapshot over HTTP
  (\<^verbatim>\<open>fetchAndDecodeAndAggregateTaskStats\<close>), the collection cycle (\<^verbatim>\<open>Update\<close>) and the
  constructor (\<^verbatim>\<open>NewTaskCollector\<close>).

  Go values are modelled as follows. An \<^verbatim>\<open>int64\<close> is a 64-bit word, read with \<open>sint\<close>;
  a Go string is a list of bytes; a pointer that may be \<^verbatim>\<open>nil\<close> is an \<open>option\<close>; a Go
  map is a partial function, and a map variable (which may hold the \<^verbatim>\<open>nil\<close> map) an
  \<open>option\<close> of it; a \<^verbatim>\<open>(value, error)\<close> result is a pair whose second component is
  \<open>None\<close> for the \<^verbatim>\<open>nil\<close> error; a nil dereference is the outcome \<open>Panic\<close>.
  Effects (the HTTP request, reading and closing the body, log lines, samples sent
  on the channel) are threaded through an explicit \<open>World\<close> and an explicit channel.
\<close>

subsection \<open>Errors\<close>

type_synonym int64 = "64 word"

text \<open>
  Error values. \<^verbatim>\<open>fmt.Errorf\<close> without \<^verbatim>\<open>%w\<close> yields an \<open>errorString\<close>, with one
  \<^verbatim>\<open>%w\<close> a \<open>wrapError\<close> holding the message and the wrapped error. \<open>EscapeError\<close> is
  net/url's, \<open>UnmarshalTypeError\<close> (JSON value, Go type, struct, field) is
  encoding/json's, and \<open>libraryError\<close> stands for any other error value handed over by a
  library (transport, I/O or JSON syntax), known here by its message only.
\<close>

datatype go_error =
    errorString string
  | wrapError string go_error
  | EscapeError string
  | UnmarshalTypeError string string string string
  | libraryError string

fun Error :: "go_error \<Rightarrow> string" where
  "Error (errorString s) = s"
| "Error (wrapError msg err) = msg"
| "Error (EscapeError s) = ''invalid URL escape '' @ [CHR 0x22] @ s @ [CHR 0x22]"
| "Error (UnmarshalTypeError v ty st fld) =
     (if st \<noteq> [] \<or> fld \<noteq> []
      then ''json: cannot unmarshal '' @ v @ '' into Go struct field '' @ st @ ''.'' @ fld
             @ '' of type '' @ ty
      else ''json: cannot unmarshal '' @ v @ '' into Go value of type '' @ ty)"
| "Error (libraryError s) = s"

fun Unwrap :: "go_error \<Rightarrow> go_error option" where
  "Unwrap (wrapError msg err) = Some err"
| "Unwrap e = None"

text \<open>A call either returns or panics.\<close>

datatype 'a outcome = Return 'a | Panic

subsection \<open>The aggregation: \<^verbatim>\<open>TasksResponse\<close>, \<^verbatim>\<open>TaskResponse\<close>, \<^verbatim>\<open>AggregateTasks\<close>\<close>

record TaskResponse =
  Action :: string

record TasksResponse =
  Tasks :: "TaskResponse list"

record AggregatedTaskStats =
  CountByAction :: "(string \<rightharpoonup> int64) option"

text \<open>\<^verbatim>\<open>m[k]\<close> on a map of \<^verbatim>\<open>int64\<close>: the zero value when the key is absent.\<close>

definition map_index :: "(string \<rightharpoonup> int64) \<Rightarrow> string \<Rightarrow> int64" where
  "map_index m k = (case m k of None \<Rightarrow> 0 | Some c \<Rightarrow> c)"

text \<open>
  The loop \<^verbatim>\<open>for _, task := range t.Tasks { actions[task.Action] += 1 }\<close>; the addition
  is that of \<^verbatim>\<open>int64\<close> and wraps around.
\<close>

fun aggregate_loop :: "TaskResponse list \<Rightarrow> (string \<rightharpoonup> int64) \<Rightarrow> (string \<rightharpoonup> int64)" where
  "aggregate_loop [] actions = actions"
| "aggregate_loop (task # rest) actions =
     aggregate_loop rest (actions(Action task \<mapsto> map_index actions (Action task) + 1))"

definition AggregateTasks :: "TasksResponse \<Rightarrow> AggregatedTaskStats option" where
  "AggregateTasks t =
     (let actions = aggregate_loop (Tasks t) Map.empty;
          agg = \<lparr>CountByAction = Some actions\<rparr>
      in Some agg)"

text \<open>The number of records of a snapshot whose action is exactly \<open>a\<close>.\<close>

definition records_with :: "string \<Rightarrow> TaskResponse list \<Rightarrow> nat" where
  "records_with a ts = length (filter (\<lambda>task. Action task = a) ts)"

subsection \<open>net/url: query values and escaping\<close>

text \<open>
  The fields of \<^verbatim>\<open>url.URL\<close> that \<^verbatim>\<open>ResolveReference\<close> reads or writes.
\<close>

record URL =
  Scheme :: string
  Opaque :: string
  User :: "string option"
  Host :: string
  Path :: string
  RawPath :: string
  ForceQuery :: bool
  RawQuery :: string
  Fragment :: string
  RawFragment :: string

definition URL_zero :: URL where
  "URL_zero = \<lparr>Scheme = [], Opaque = [], User = None, Host = [], Path = [], RawPath = [],
     ForceQuery = False, RawQuery = [], Fragment = [], RawFragment = []\<rparr>"

text \<open>
  \<^verbatim>\<open>url.Values\<close> is a \<^verbatim>\<open>map[string][]string\<close>. It is kept as an association list with
  distinct keys, so that \<^verbatim>\<open>Encode\<close>, which sorts the keys, can be computed.
\<close>

type_synonym Values = "(string \<times> string list) list"

definition Values_index :: "Values \<Rightarrow> string \<Rightarrow> string list" where
  "Values_index v k = (case map_of v k of None \<Rightarrow> [] | Some vs \<Rightarrow> vs)"

fun Values_store :: "Values \<Rightarrow> string \<Rightarrow> string list \<Rightarrow> Values" where
  "Values_store [] k vs = [(k, vs)]"
| "Values_store ((k', vs') # rest) k vs =
     (if k' = k then (k, vs) # rest else (k', vs') # Values_store rest k vs)"

text \<open>\<^verbatim>\<open>func (v Values) Set(key, value string) { v[key] = []string{value} }\<close>\<close>

definition Values_Set :: "Values \<Rightarrow> string \<Rightarrow> string \<Rightarrow> Values" where
  "Values_Set v key val = Values_store v key [val]"

text \<open>
  \<^verbatim>\<open>shouldEscape(c, encodeQueryComponent)\<close>: letters, digits and \<^verbatim>\<open>- _ . ~\<close> are kept,
  every other byte is escaped.
\<close>

definition shouldEscape :: "char \<Rightarrow> bool" where
  "shouldEscape c =
     (if (CHR ''a'' \<le> c \<and> c \<le> CHR ''z'') \<or> (CHR ''A'' \<le> c \<and> c \<le> CHR ''Z'')
          \<or> (CHR ''0'' \<le> c \<and> c \<le> CHR ''9'') then False
      else if c = CHR ''-'' \<or> c = CHR ''_'' \<or> c = CHR ''.'' \<or> c = CHR ''~'' then False
      else True)"

definition upperhex :: string where
  "upperhex = ''0123456789ABCDEF''"

text \<open>\<^verbatim>\<open>QueryEscape\<close>: a space becomes \<^verbatim>\<open>+\<close>, an escaped byte \<^verbatim>\<open>%XX\<close>.\<close>

fun QueryEscape :: "string \<Rightarrow> string" where
  "QueryEscape [] = []"
| "QueryEscape (c # s) =
     (if c = CHR '' '' then CHR ''+'' # QueryEscape s
      else if shouldEscape c then
        CHR ''%'' # upperhex ! (of_char c div 16) # upperhex ! (of_char c mod 16) # QueryEscape s
      else c # QueryEscape s)"

definition ishex :: "char \<Rightarrow> bool" where
  "ishex c = ((CHR ''0'' \<le> c \<and> c \<le> CHR ''9'') \<or> (CHR ''a'' \<le> c \<and> c \<le> CHR ''f'')
      \<or> (CHR ''A'' \<le> c \<and> c \<le> CHR ''F''))"

definition unhex :: "char \<Rightarrow> nat" where
  "unhex c =
     (if CHR ''0'' \<le> c \<and> c \<le> CHR ''9'' then of_char c - of_char CHR ''0''
      else if CHR ''a'' \<le> c \<and> c \<le> CHR ''f'' then of_char c - of_char CHR ''a'' + 10
      else if CHR ''A'' \<le> c \<and> c \<le> CHR ''F'' then of_char c - of_char CHR ''A'' + 10
      else 0)"

text \<open>
  \<^verbatim>\<open>QueryUnescape\<close>: \<^verbatim>\<open>%XX\<close> becomes the byte, \<^verbatim>\<open>+\<close> a space; a \<^verbatim>\<open>%\<close> that is not
  followed by two hex digits is an \<open>EscapeError\<close> carrying at most three bytes.
\<close>

fun QueryUnescape :: "string \<Rightarrow> go_error + string" where
  "QueryUnescape [] = Inr []"
| "QueryUnescape (c # s) =
     (if c = CHR ''%'' then
        (case s of
           h # l # rest \<Rightarrow>
             (if ishex h \<and> ishex l then
                (case QueryUnescape rest of
                   Inl e \<Rightarrow> Inl e
                 | Inr r \<Rightarrow> Inr (char_of (unhex h * 16 + unhex l) # r))
              else Inl (EscapeError (take 3 (c # s))))
         | _ \<Rightarrow> Inl (EscapeError (take 3 (c # s))))
      else
        (case QueryUnescape s of
           Inl e \<Rightarrow> Inl e
         | Inr r \<Rightarrow> Inr ((if c = CHR ''+'' then CHR '' '' else c) # r)))"

text \<open>\<^verbatim>\<open>strings.Cut(s, sep)\<close> for a one-byte separator, without its \<^verbatim>\<open>found\<close> flag.\<close>

definition Cut :: "string \<Rightarrow> char \<Rightarrow> string \<times> string" where
  "Cut s sep = (takeWhile (\<lambda>c. c \<noteq> sep) s, drop 1 (dropWhile (\<lambda>c. c \<noteq> sep) s))"

text \<open>
  \<^verbatim>\<open>parseQuery(m, query)\<close>: the loop over the \<^verbatim>\<open>&\<close>-separated settings. The first error
  is kept and the loop goes on.
\<close>

function parseQuery :: "Values \<Rightarrow> string \<Rightarrow> go_error option \<Rightarrow> Values \<times> go_error option" where
  "parseQuery m query err =
     (if query = [] then (m, err)
      else
        (let (key, query') = Cut query (CHR ''&'') in
         if CHR '';'' \<in> set key then
           parseQuery m query' (Some (errorString ''invalid semicolon separator in query''))
         else if key = [] then parseQuery m query' err
         else
           (let (key, val) = Cut key (CHR ''='') in
            case QueryUnescape key of
              Inl err1 \<Rightarrow> parseQuery m query' (if err = None then Some err1 else err)
            | Inr key \<Rightarrow>
                (case QueryUnescape val of
                   Inl err1 \<Rightarrow> parseQuery m query' (if err = None then Some err1 else err)
                 | Inr val \<Rightarrow>
                     parseQuery (Values_store m key (Values_index m key @ [val])) query' err))))"
  by pat_completeness auto
termination
proof -
  have cut_less: "length query' < length query"
    if "query \<noteq> []" and "(key, query') = Cut query (CHR ''&'')"
    for query key query'
  proof -
    have "length (dropWhile (\<lambda>c. c \<noteq> CHR ''&'') query) \<le> length query"
      by (rule length_dropWhile_le)
    moreover have "0 < length query"
      using that(1) by simp
    ultimately have "length (dropWhile (\<lambda>c. c \<noteq> CHR ''&'') query) - 1 < length query"
      by arith
    then show ?thesis
      using that(2) by (simp add: Cut_def)
  qed
  show ?thesis
    by (relation "measure (\<lambda>(m, query, err). length query)") (auto dest: cut_less)
qed

declare parseQuery.simps [simp del]

text \<open>\<^verbatim>\<open>func (u *URL) Query() Values { v, _ := ParseQuery(u.RawQuery); return v }\<close>\<close>

definition Query :: "URL \<Rightarrow> Values" where
  "Query u = fst (parseQuery [] (RawQuery u) None)"

text \<open>
  \<^verbatim>\<open>func (v Values) Encode() string\<close>: the keys sorted, one \<^verbatim>\<open>key=value\<close> setting per
  value, joined by \<^verbatim>\<open>&\<close>.
\<close>

fun Encode_values :: "string \<Rightarrow> string list \<Rightarrow> string \<Rightarrow> string" where
  "Encode_values keyEscaped [] buf = buf"
| "Encode_values keyEscaped (v # vs) buf =
     Encode_values keyEscaped vs
       ((if buf \<noteq> [] then buf @ ''&'' else buf) @ keyEscaped @ ''='' @ QueryEscape v)"

fun Encode_keys :: "Values \<Rightarrow> string list \<Rightarrow> string \<Rightarrow> string" where
  "Encode_keys v [] buf = buf"
| "Encode_keys v (k # keys) buf =
     Encode_keys v keys (Encode_values (QueryEscape k) (Values_index v k) buf)"

definition Encode :: "Values \<Rightarrow> string" where
  "Encode v = (if v = [] then [] else Encode_keys v (sort (map fst v)) [])"

subsection \<open>encoding/json: decoding into \<^verbatim>\<open>TasksResponse\<close>\<close>

text \<open>
  A JSON text that passed the syntax check, as the value it denotes. The members of an
  object are kept in the order of the text, duplicates included, since the decoder
  handles them one after the other.
\<close>

datatype json =
    JNull
  | JBool bool
  | JNumber string
  | JString string
  | JArray "json list"
  | JObject "(string \<times> json) list"

text \<open>
  What the program takes from its surroundings: the flag variable \<^verbatim>\<open>actionFilter\<close>,
  the package constant \<^verbatim>\<open>namespace\<close> (declared in another file of the package), and the
  library functions whose result is only passed on or whose rule is not written in
  \<^verbatim>\<open>tasks.go\<close>:
  \<^item> \<open>resolved_path u ref\<close>: the \<^verbatim>\<open>Path\<close> and \<^verbatim>\<open>RawPath\<close> that
    \<^verbatim>\<open>setPath(resolvePath(u.EscapedPath(), ref.EscapedPath()))\<close> stores;
  \<^item> \<open>URL_String\<close>, \<open>Hostname\<close>, \<open>Port\<close>: the methods of \<^verbatim>\<open>url.URL\<close>;
  \<^item> \<open>json_scan\<close>: the syntax check and tokenisation of \<^verbatim>\<open>json.Unmarshal\<close>;
  \<^item> \<open>equalFold\<close>: the case-insensitive comparison by which the decoder matches an
    object key with a struct field when the two are not equal;
  \<^item> \<open>range_order\<close>: the order in which a \<^verbatim>\<open>range\<close> over a map visits its keys, which Go
    leaves unspecified.
\<close>

record env =
  actionFilter :: string
  namespace :: string
  resolved_path :: "URL \<Rightarrow> URL \<Rightarrow> string \<times> string"
  URL_String :: "URL \<Rightarrow> string"
  Hostname :: "URL \<Rightarrow> string"
  Port :: "URL \<Rightarrow> string"
  json_scan :: "string \<Rightarrow> go_error + json"
  equalFold :: "string \<Rightarrow> string \<Rightarrow> bool"
  range_order :: "(string \<rightharpoonup> int64) \<Rightarrow> string list"

fun json_kind :: "json \<Rightarrow> string" where
  "json_kind JNull = ''null''"
| "json_kind (JBool b) = ''bool''"
| "json_kind (JNumber n) = ''number''"
| "json_kind (JString s) = ''string''"
| "json_kind (JArray xs) = ''array''"
| "json_kind (JObject fs) = ''object''"

text \<open>The decoder keeps the first type error and goes on.\<close>

definition saveError :: "go_error option \<Rightarrow> go_error \<Rightarrow> go_error option" where
  "saveError saved e = (case saved of None \<Rightarrow> Some e | Some e0 \<Rightarrow> Some e0)"

text \<open>
  An object key selects the field tagged \<open>name\<close> when it equals the name or, failing
  that, matches it without regard to case.
\<close>

definition match_field :: "env \<Rightarrow> string \<Rightarrow> string \<Rightarrow> bool" where
  "match_field env name key = (key = name \<or> equalFold env key name)"

text \<open>
  Decoding into the field \<^verbatim>\<open>Action string `json:"action"`\<close>: a JSON string is stored,
  \<^verbatim>\<open>null\<close> leaves the field as it is, anything else is a type error.
\<close>

fun decode_Action :: "json \<Rightarrow> string \<times> go_error option \<Rightarrow> string \<times> go_error option" where
  "decode_Action (JString s) (cur, saved) = (s, saved)"
| "decode_Action JNull (cur, saved) = (cur, saved)"
| "decode_Action j (cur, saved) =
     (cur, saveError saved (UnmarshalTypeError (json_kind j) ''string'' ''TaskResponse'' ''tasks.action''))"

definition decode_TaskResponse_member ::
  "env \<Rightarrow> string \<times> json \<Rightarrow> TaskResponse \<times> go_error option \<Rightarrow> TaskResponse \<times> go_error option" where
  "decode_TaskResponse_member env kv st =
     (if match_field env ''action'' (fst kv)
      then (let (a, saved) = decode_Action (snd kv) (Action (fst st), snd st)
            in ((fst st)\<lparr>Action := a\<rparr>, saved))
      else st)"

text \<open>
  Decoding into a \<^verbatim>\<open>TaskResponse\<close>: the members of an object are handled in turn, a
  member that selects no field is skipped; \<^verbatim>\<open>null\<close> changes nothing.
\<close>

fun decode_TaskResponse ::
  "env \<Rightarrow> json \<Rightarrow> TaskResponse \<times> go_error option \<Rightarrow> TaskResponse \<times> go_error option" where
  "decode_TaskResponse env (JObject fs) st = foldl (\<lambda>st kv. decode_TaskResponse_member env kv st) st fs"
| "decode_TaskResponse env JNull st = st"
| "decode_TaskResponse env j (cur, saved) =
     (cur, saveError saved
        (UnmarshalTypeError (json_kind j) ''collector.TaskResponse'' ''TasksResponse'' ''tasks''))"

text \<open>
  Decoding an array into the slice \<^verbatim>\<open>Tasks\<close>: element \<open>i\<close> is decoded into the element
  the slice already has at \<open>i\<close>, or into a zero \<^verbatim>\<open>TaskResponse\<close> when the slice is
  shorter; the slice ends up as long as the array.
\<close>

fun decode_elements ::
  "env \<Rightarrow> json list \<Rightarrow> TaskResponse list \<Rightarrow> go_error option \<Rightarrow> TaskResponse list \<times> go_error option" where
  "decode_elements env [] cur saved = ([], saved)"
| "decode_elements env (x # xs) cur saved =
     (let (old, rest) = (case cur of [] \<Rightarrow> (\<lparr>Action = []\<rparr>, []) | c # cs \<Rightarrow> (c, cs));
          (e, saved') = decode_TaskResponse env x (old, saved);
          (es, saved'') = decode_elements env xs rest saved'
      in (e # es, saved''))"

fun decode_Tasks ::
  "env \<Rightarrow> json \<Rightarrow> TaskResponse list \<times> go_error option \<Rightarrow> TaskResponse list \<times> go_error option" where
  "decode_Tasks env (JArray xs) (cur, saved) = decode_elements env xs cur saved"
| "decode_Tasks env JNull (cur, saved) = ([], saved)"
| "decode_Tasks env j (cur, saved) =
     (cur, saveError saved
        (UnmarshalTypeError (json_kind j) ''[]collector.TaskResponse'' ''TasksResponse'' ''tasks''))"

definition decode_TasksResponse_member ::
  "env \<Rightarrow> string \<times> json \<Rightarrow> TasksResponse \<times> go_error option \<Rightarrow> TasksResponse \<times> go_error option" where
  "decode_TasksResponse_member env kv st =
     (if match_field env ''tasks'' (fst kv)
      then (let (ts, saved) = decode_Tasks env (snd kv) (Tasks (fst st), snd st)
            in ((fst st)\<lparr>Tasks := ts\<rparr>, saved))
      else st)"

fun decode_TasksResponse ::
  "env \<Rightarrow> json \<Rightarrow> TasksResponse \<times> go_error option \<Rightarrow> TasksResponse \<times> go_error option" where
  "decode_TasksResponse env (JObject fs) st = foldl (\<lambda>st kv. decode_TasksResponse_member env kv st) st fs"
| "decode_TasksResponse env JNull st = st"
| "decode_TasksResponse env j (cur, saved) =
     (cur, saveError saved (UnmarshalTypeError (json_kind j) ''collector.TasksResponse'' [] []))"

text \<open>
  \<^verbatim>\<open>var tr TasksResponse; err := json.Unmarshal(bts, &tr)\<close>: a syntax error, or the
  first type error, or the decoded value.
\<close>

definition Unmarshal :: "env \<Rightarrow> string \<Rightarrow> go_error + TasksResponse" where
  "Unmarshal env bts =
     (case json_scan env bts of
        Inl e \<Rightarrow> Inl e
      | Inr j \<Rightarrow>
          (case decode_TasksResponse env j (\<lparr>Tasks = []\<rparr>, None) of
             (tr, None) \<Rightarrow> Inr tr
           | (tr, Some e) \<Rightarrow> Inl e))"

subsection \<open>The collector and its surroundings\<close>

text \<open>
  \<^verbatim>\<open>ResolveReference\<close> of net/url, on the fields above; the resolution of the path
  itself is \<open>resolved_path\<close>.
\<close>

definition setPath :: "URL \<Rightarrow> string \<times> string \<Rightarrow> URL" where
  "setPath url p = url\<lparr>Path := fst p, RawPath := snd p\<rparr>"

definition ResolveReference :: "env \<Rightarrow> URL \<Rightarrow> URL \<Rightarrow> URL" where
  "ResolveReference env base ref =
     (let url = ref;
          url = (if Scheme ref = [] then url\<lparr>Scheme := Scheme base\<rparr> else url)
      in if Scheme ref \<noteq> [] \<or> Host ref \<noteq> [] \<or> User ref \<noteq> None then
           setPath url (resolved_path env ref URL_zero)
         else if Opaque ref \<noteq> [] then
           url\<lparr>User := None, Host := [], Path := []\<rparr>
         else
           (let url =
                  (if Path ref = [] \<and> \<not> ForceQuery ref \<and> RawQuery ref = [] then
                     (let url = url\<lparr>RawQuery := RawQuery base\<rparr>
                      in if Fragment ref = []
                         then url\<lparr>Fragment := Fragment base, RawFragment := RawFragment base\<rparr>
                         else url)
                   else url)
            in if Path ref = [] \<and> Opaque base \<noteq> [] then
                 url\<lparr>Opaque := Opaque base, User := None, Host := [], Path := []\<rparr>
               else
                 setPath (url\<lparr>Host := Host base, User := User base\<rparr>)
                   (resolved_path env base ref)))"

text \<open>
  An HTTP response as far as the collector looks at it: the status code, what
  \<^verbatim>\<open>io.ReadAll(res.Body)\<close> returns and what \<^verbatim>\<open>res.Body.Close()\<close> returns. The client is
  its \<^verbatim>\<open>Get\<close> method: from the URL text to an error or a response.
\<close>

record Response =
  StatusCode :: int
  Body_ReadAll :: "string \<times> go_error option"
  Body_Close :: "go_error option"

type_synonym Client = "string \<Rightarrow> go_error + Response"

datatype Logger = Logger string

datatype log_level = Info | Warn

datatype log_value = Str string | Err go_error

record log_line =
  log_to :: Logger
  log_level :: log_level
  keyvals :: "(string \<times> log_value) list"

text \<open>
  The observable effects of a call: the URLs requested with GET, the lines logged, and
  how often a response body was read and closed.
\<close>

record World =
  requests :: "string list"
  logs :: "log_line list"
  body_reads :: nat
  body_closes :: nat

record TaskCollector =
  logger :: Logger
  hc :: "Client option"
  u :: "URL option"

text \<open>The default of the flag \<^verbatim>\<open>tasks.actions\<close>.\<close>

definition actionFilter_default :: string where
  "actionFilter_default = ''indices:*''"

text \<open>
  \<^verbatim>\<open>NewTaskCollector\<close>: one info line, then the collector with the three references as
  they were given, and the \<^verbatim>\<open>nil\<close> error.
\<close>

definition NewTaskCollector ::
  "env \<Rightarrow> Logger \<Rightarrow> URL option \<Rightarrow> Client option \<Rightarrow> World
     \<Rightarrow> World \<times> TaskCollector option \<times> go_error option" where
  "NewTaskCollector env lg base client w =
     (let w = w\<lparr>logs := logs w @
                 [\<lparr>log_to = lg, log_level = Info,
                   keyvals = [(''msg'', Str ''task collector created''),
                              (''actionFilter'', Str (actionFilter env))]\<rparr>]\<rparr>
      in (w, Some \<lparr>logger = lg, hc = client, u = base\<rparr>, None))"

text \<open>The verb \<^verbatim>\<open>%d\<close> of \<^verbatim>\<open>fmt\<close> on an \<^verbatim>\<open>int\<close>.\<close>

fun decimal :: "nat \<Rightarrow> string" where
  "decimal n =
     (if n < 10 then [''0123456789'' ! n]
      else decimal (n div 10) @ [''0123456789'' ! (n mod 10)])"

declare decimal.simps [simp del]

definition fmt_d :: "int \<Rightarrow> string" where
  "fmt_d i = (if i < 0 then CHR ''-'' # decimal (nat (- i)) else decimal (nat i))"

text \<open>
  Lines 84 to 88: the URL of the request, the path \<^verbatim>\<open>_tasks\<close> resolved against the base
  URL, with the query values \<^verbatim>\<open>group_by\<close> and \<^verbatim>\<open>actions\<close> set and encoded.
\<close>

definition tasks_URL :: "env \<Rightarrow> URL \<Rightarrow> URL" where
  "tasks_URL env base =
     (let url = ResolveReference env base (URL_zero\<lparr>Path := ''_tasks''\<rparr>);
          q = Query url;
          q = Values_Set q ''group_by'' ''none'';
          q = Values_Set q ''actions'' (actionFilter env)
      in url\<lparr>RawQuery := Encode q\<rparr>)"

text \<open>
  The deferred function of lines 96 to 104: it closes the body, assigns the result to the
  local variable \<^verbatim>\<open>err\<close> and logs a warning when the close failed. It returns the new
  value of \<^verbatim>\<open>err\<close> and the world.
\<close>

definition deferred_close :: "TaskCollector \<Rightarrow> Response \<Rightarrow> World \<Rightarrow> go_error option \<times> World" where
  "deferred_close t res w =
     (let err = Body_Close res;
          w = w\<lparr>body_closes := body_closes w + 1\<rparr>
      in case err of
           None \<Rightarrow> (err, w)
         | Some e \<Rightarrow>
             (err, w\<lparr>logs := logs w @
                     [\<lparr>log_to = logger t, log_level = Warn,
                       keyvals = [(''msg'', Str ''failed to close http.Client''),
                                  (''err'', Err e)]\<rparr>]\<rparr>))"

text \<open>
  Lines 106 to 121, between the registration of the deferred function and its run: the
  status check, the read of the body, the decoding and the aggregation. The result is the
  world and the two values of the \<^verbatim>\<open>return\<close> statement reached.
\<close>

definition read_response ::
  "env \<Rightarrow> URL \<Rightarrow> Response \<Rightarrow> World \<Rightarrow> World \<times> AggregatedTaskStats option \<times> go_error option" where
  "read_response env url res w =
     (if StatusCode res \<noteq> 200 then
        (w, None, Some (errorString (''HTTP Request to '' @ URL_String env url
                          @ '' failed with code '' @ fmt_d (StatusCode res))))
      else
        (let (bts, err) = Body_ReadAll res;
             w = w\<lparr>body_reads := body_reads w + 1\<rparr>
         in case err of
              Some e \<Rightarrow> (w, None, Some e)
            | None \<Rightarrow>
                (case Unmarshal env bts of
                   Inl e \<Rightarrow> (w, None, Some e)
                 | Inr tr \<Rightarrow> (let stats = AggregateTasks tr in (w, stats, None)))))"

text \<open>
  \<^verbatim>\<open>fetchAndDecodeAndAggregateTaskStats\<close>. The results of the function are unnamed, so
  the values of the \<^verbatim>\<open>return\<close> statement are fixed before the deferred function runs;
  what the deferred function assigns to \<^verbatim>\<open>err\<close> is dropped with the frame.
\<close>

definition fetchAndDecodeAndAggregateTaskStats ::
  "env \<Rightarrow> TaskCollector \<Rightarrow> World
     \<Rightarrow> (World \<times> AggregatedTaskStats option \<times> go_error option) outcome" where
  "fetchAndDecodeAndAggregateTaskStats env t w =
     (case u t of
        None \<Rightarrow> Panic
      | Some base \<Rightarrow>
          (let url = tasks_URL env base in
           case hc t of
             None \<Rightarrow> Panic
           | Some client \<Rightarrow>
               (let w = w\<lparr>requests := requests w @ [URL_String env url]\<rparr> in
                case client (URL_String env url) of
                  Inl err \<Rightarrow>
                    Return (w, None,
                      Some (errorString (''failed to get data stream stats health from ''
                        @ Scheme url @ ''://'' @ Hostname env url @ '':'' @ Port env url
                        @ Path url @ '': '' @ Error err)))
                | Inr res \<Rightarrow>
                    (let (w, stats, ret_err) = read_response env url res w;
                         (err, w) = deferred_close t res w
                     in Return (w, stats, ret_err)))))"

subsection \<open>Metrics and the collection cycle\<close>

record Desc =
  fqName :: string
  help_text :: string
  variableLabels :: "string list"

datatype ValueType = CounterValue | GaugeValue | UntypedValue

text \<open>
  A sample: its descriptor, its type, its value and its label values. The value of a
  sample is a \<^verbatim>\<open>float64\<close>; it is kept as the real number the \<^verbatim>\<open>float64\<close> denotes.
\<close>

record Metric =
  desc :: Desc
  valType :: ValueType
  val :: real
  labelValues :: "string list"

definition BuildFQName :: "string \<Rightarrow> string \<Rightarrow> string \<Rightarrow> string" where
  "BuildFQName ns subsystem name =
     (if name = [] then []
      else (if ns \<noteq> [] then ns @ ''_'' else []) @ (if subsystem \<noteq> [] then subsystem @ ''_'' else [])
             @ name)"

definition taskActionDesc :: "env \<Rightarrow> Desc" where
  "taskActionDesc env =
     \<lparr>fqName = BuildFQName (namespace env) ''task_stats'' ''action_total'',
      help_text = ''Number of tasks of a certain action'',
      variableLabels = [''action'']\<rparr>"

text \<open>
  \<^verbatim>\<open>MustNewConstMetric\<close> panics when the number of label values is not that of the
  descriptor's labels.
\<close>

definition MustNewConstMetric :: "Desc \<Rightarrow> ValueType \<Rightarrow> real \<Rightarrow> string list \<Rightarrow> Metric outcome" where
  "MustNewConstMetric d vt v lvs =
     (if length lvs \<noteq> length (variableLabels d) then Panic
      else Return \<lparr>desc = d, valType = vt, val = v, labelValues = lvs\<rparr>)"

text \<open>
  The conversion \<^verbatim>\<open>float64(count)\<close> of an \<^verbatim>\<open>int64\<close>: the nearest number with a
  significand of 53 bits, ties to the even significand.
\<close>

definition round_53 :: "int \<Rightarrow> int" where
  "round_53 n =
     (let a = \<bar>n\<bar> in
      if a < 2 ^ 53 then n
      else
        (let e = nat (bitlen a) - 53;
             q = a div 2 ^ e;
             r = a mod 2 ^ e;
             h = 2 ^ (e - 1);
             q = (if h < r \<or> (r = h \<and> odd q) then q + 1 else q)
         in sgn n * (q * 2 ^ e)))"

definition float64 :: "int64 \<Rightarrow> real" where
  "float64 c = real_of_int (round_53 (sint c))"

text \<open>
  The entries a \<^verbatim>\<open>range\<close> over a map yields, in the order the runtime chose; a
  \<^verbatim>\<open>nil\<close> map yields none.
\<close>

definition range_map :: "env \<Rightarrow> (string \<rightharpoonup> int64) option \<Rightarrow> (string \<times> int64) list" where
  "range_map env mo =
     (case mo of
        None \<Rightarrow> []
      | Some m \<Rightarrow> List.map_filter (\<lambda>k. map_option (Pair k) (m k)) (range_order env m))"

text \<open>The loop of lines 72 to 79; the channel is the list of the samples sent so far.\<close>

fun send_all :: "env \<Rightarrow> (string \<times> int64) list \<Rightarrow> Metric list \<Rightarrow> Metric list outcome" where
  "send_all env [] ch = Return ch"
| "send_all env ((action, cnt) # rest) ch =
     (case MustNewConstMetric (taskActionDesc env) GaugeValue (float64 cnt) [action] of
        Panic \<Rightarrow> Panic
      | Return m \<Rightarrow> send_all env rest (ch @ [m]))"

text \<open>\<^verbatim>\<open>Update\<close>: one collection cycle.\<close>

definition Update ::
  "env \<Rightarrow> TaskCollector \<Rightarrow> World \<Rightarrow> Metric list
     \<Rightarrow> (World \<times> Metric list \<times> go_error option) outcome" where
  "Update env t w ch =
     (case fetchAndDecodeAndAggregateTaskStats env t w of
        Panic \<Rightarrow> Panic
      | Return (w, stats, err) \<Rightarrow>
          (case err of
             Some e \<Rightarrow>
               (let err = wrapError (''failed to fetch and decode task stats: '' @ Error e) e
                in Return (w, ch, Some err))
           | None \<Rightarrow>
               (case stats of
                  None \<Rightarrow> Panic
                | Some s \<Rightarrow>
                    (case send_all env (range_map env (CountByAction s)) ch of
                       Panic \<Rightarrow> Panic
                     | Return ch \<Rightarrow> Return (w, ch, None)))))"

subsection \<open>Notions used to state the properties\<close>

text \<open>
  The values a call returned, without the world, and \<open>None\<close> when it panicked.
\<close>

definition returned :: "(World \<times> 'a) outcome \<Rightarrow> 'a option" where
  "returned out = (case out of Panic \<Rightarrow> None | Return (w, r) \<Rightarrow> Some r)"

text \<open>
  The client that answers as \<open>client\<close> does, except that closing the body of its response
  returns \<open>c\<close>.
\<close>

definition with_close :: "go_error option \<Rightarrow> Client \<Rightarrow> Client" where
  "with_close c client =
     (\<lambda>url. case client url of Inl e \<Rightarrow> Inl e | Inr res \<Rightarrow> Inr (res\<lparr>Body_Close := c\<rparr>))"

subsection \<open>A concrete setting\<close>

text \<open>
  One setting in which the definitions can be run: the default filter, a server at
  \<^verbatim>\<open>http://localhost:9200\<close>, a comparison of keys that ignores the case of ASCII
  letters, and a scanner that knows the two bodies used below.
\<close>

definition ascii_upper :: "char \<Rightarrow> char" where
  "ascii_upper c =
     (case map_of (zip ''abcdefghijklmnopqrstuvwxyz'' ''ABCDEFGHIJKLMNOPQRSTUVWXYZ'') c of
        None \<Rightarrow> c
      | Some d \<Rightarrow> d)"

definition snapshot_example :: TasksResponse where
  "snapshot_example =
     \<lparr>Tasks = [\<lparr>Action = ''indices:data/write/bulk''\<rparr>,
               \<lparr>Action = ''indices:data/write/bulk''\<rparr>,
               \<lparr>Action = ''cluster:monitor/nodes/stats''\<rparr>]\<rparr>"

definition json_example :: json where
  "json_example =
     JObject
       [(''took'', JNumber ''3''),
        (''tasks'',
          JArray
            [JObject [(''node'', JString ''n1''), (''action'', JString ''indices:data/write/bulk''),
                      (''cancellable'', JBool True)],
             JObject [(''action'', JString ''indices:data/write/bulk''), (''id'', JNumber ''17'')],
             JObject [(''headers'', JObject []), (''action'', JString ''cluster:monitor/nodes/stats'')]])]"

definition env_example :: env where
  "env_example =
     \<lparr>actionFilter = actionFilter_default,
      namespace = ''elasticsearch'',
      resolved_path = (\<lambda>base ref. (CHR ''/'' # Path ref, [])),
      URL_String = (\<lambda>url. Scheme url @ ''://'' @ Host url @ Path url @ ''?'' @ RawQuery url),
      Hostname = (\<lambda>url. takeWhile (\<lambda>c. c \<noteq> CHR '':'') (Host url)),
      Port = (\<lambda>url. drop 1 (dropWhile (\<lambda>c. c \<noteq> CHR '':'') (Host url))),
      json_scan = (\<lambda>bts. if bts = ''three tasks'' then Inr json_example
                          else if bts = ''no tasks'' then Inr (JObject [(''tasks'', JArray [])])
                          else Inl (libraryError ''invalid character'')),
      equalFold = (\<lambda>s t. map ascii_upper s = map ascii_upper t),
      range_order = (\<lambda>m. [''cluster:monitor/nodes/stats'', ''indices:data/write/bulk''])\<rparr>"

definition base_example :: URL where
  "base_example = URL_zero\<lparr>Scheme := ''http'', Host := ''localhost:9200''\<rparr>"

definition response_example :: Response where
  "response_example = \<lparr>StatusCode = 200, Body_ReadAll = (''three tasks'', None), Body_Close = None\<rparr>"

definition response_unavailable :: Response where
  "response_unavailable = \<lparr>StatusCode = 503, Body_ReadAll = ([], None), Body_Close = None\<rparr>"

definition collector_example :: "Response \<Rightarrow> TaskCollector" where
  "collector_example res =
     \<lparr>logger = Logger ''tasks'', hc = Some (\<lambda>url. Inr res), u = Some base_example\<rparr>"

definition collector_unreachable :: TaskCollector where
  "collector_unreachable =
     \<lparr>logger = Logger ''tasks'', hc = Some (\<lambda>url. Inl (libraryError ''connection refused'')),
      u = Some base_example\<rparr>"

definition world_example :: World where
  "world_example = \<lparr>requests = [], logs = [], body_reads = 0, body_closes = 0\<rparr>"

section \<open>Properties of the aggregation\<close>

lemma aggregate_loop_lookup:
  "aggregate_loop ts m a =
     (if records_with a ts = 0 then m a
      else Some (map_index m a + of_nat (records_with a ts)))"
  by (induction ts arbitrary: m) (auto simp: records_with_def map_index_def)

lemma records_with_eq_0_iff: "records_with a ts = 0 \<longleftrightarrow> a \<notin> Action ` set ts"
  by (auto simp: records_with_def filter_empty_conv)

lemma records_with_le_length: "records_with a ts \<le> length ts"
  by (simp add: records_with_def)

lemma sint_of_nat_int64: "n < 2 ^ 63 \<Longrightarrow> sint (of_nat n :: int64) = int n"
  by (simp add: signed_of_nat signed_take_bit_int_eq_self)

lemma AggregateTasks_eq:
  "AggregateTasks t = Some \<lparr>CountByAction = Some (aggregate_loop (Tasks t) Map.empty)\<rparr>"
  by (simp add: AggregateTasks_def)

lemma aggregate_loop_empty_lookup:
  "aggregate_loop ts Map.empty a =
     (if a \<in> Action ` set ts then Some (of_nat (records_with a ts)) else None)"
  by (simp add: aggregate_loop_lookup records_with_eq_0_iff map_index_def)

lemma records_with_size: "records_with a xs = size (filter_mset (\<lambda>task. Action task = a) (mset xs))"
  unfolding records_with_def by (simp flip: mset_filter)

lemma records_with_mset: "mset xs = mset ys \<Longrightarrow> records_with a xs = records_with a ys"
  by (simp add: records_with_size)

lemma decode_TaskResponse_no_action:
  assumes "\<forall>kv \<in> set fs. \<not> match_field env ''action'' (fst kv)"
  shows "decode_TaskResponse env (JObject fs) st = st"
  using assms by (induction fs arbitrary: st) (simp_all add: decode_TaskResponse_member_def)

text \<open>
  Claim C1. For every snapshot and every action string, the count that \<^verbatim>\<open>AggregateTasks\<close>
  stores for the action is the number of records whose action is exactly that string (as
  an \<^verbatim>\<open>int64\<close>; read as a signed number it is that number itself, a Go slice having
  fewer than \<open>2 ^ 63\<close> elements), an action is a key only if such a record exists, and an
  empty snapshot gives the empty map.
\<close>

theorem AggregateTasks_counts:
  "\<exists>m. AggregateTasks t = Some \<lparr>CountByAction = Some m\<rparr> \<and>
     (\<forall>a. m a = (if a \<in> Action ` set (Tasks t)
                 then Some (of_nat (records_with a (Tasks t))) else None)) \<and>
     (length (Tasks t) < 2 ^ 63 \<longrightarrow>
        (\<forall>a c. m a = Some c \<longrightarrow> sint c = int (records_with a (Tasks t)))) \<and>
     (Tasks t = [] \<longrightarrow> m = Map.empty)"
proof (intro exI conjI allI impI)
  show "AggregateTasks t = Some \<lparr>CountByAction = Some (aggregate_loop (Tasks t) Map.empty)\<rparr>"
    by (rule AggregateTasks_eq)
next
  fix a
  show "aggregate_loop (Tasks t) Map.empty a =
      (if a \<in> Action ` set (Tasks t) then Some (of_nat (records_with a (Tasks t))) else None)"
    by (rule aggregate_loop_empty_lookup)
next
  fix a c
  assume len: "length (Tasks t) < 2 ^ 63" and look: "aggregate_loop (Tasks t) Map.empty a = Some c"
  from look have c: "c = of_nat (records_with a (Tasks t))"
    by (simp add: aggregate_loop_empty_lookup split: if_splits)
  have "records_with a (Tasks t) < 2 ^ 63"
    using records_with_le_length [of a "Tasks t"] len by simp
  then show "sint c = int (records_with a (Tasks t))"
    unfolding c by (rule sint_of_nat_int64)
next
  assume "Tasks t = []"
  then show "aggregate_loop (Tasks t) Map.empty = Map.empty"
    by simp
qed

theorem AggregateTasks_counts_witness:
  "length (Tasks snapshot_example) < 2 ^ 63 \<and>
   (\<exists>m. AggregateTasks snapshot_example = Some \<lparr>CountByAction = Some m\<rparr> \<and>
        m ''indices:data/write/bulk'' = Some 2 \<and>
        m ''cluster:monitor/nodes/stats'' = Some 1 \<and>
        m ''indices:data/read/search'' = None \<and>
        (\<exists>c. m ''indices:data/write/bulk'' = Some c \<and> sint c = 2))"
proof -
  have len: "length (Tasks snapshot_example) < 2 ^ 63"
    by (simp add: snapshot_example_def)
  obtain m where m: "AggregateTasks snapshot_example = Some \<lparr>CountByAction = Some m\<rparr>"
    and look: "\<And>a. m a = (if a \<in> Action ` set (Tasks snapshot_example)
                 then Some (of_nat (records_with a (Tasks snapshot_example))) else None)"
    and exact: "\<And>a c. m a = Some c \<Longrightarrow> sint c = int (records_with a (Tasks snapshot_example))"
    using AggregateTasks_counts [of snapshot_example] len by blast
  have 1: "m ''indices:data/write/bulk'' = Some 2"
    by (simp add: look snapshot_example_def records_with_def)
  have 2: "m ''cluster:monitor/nodes/stats'' = Some 1"
    by (simp add: look snapshot_example_def records_with_def)
  have 3: "m ''indices:data/read/search'' = None"
    by (simp add: look snapshot_example_def records_with_def)
  have 4: "sint (2 :: int64) = 2"
    using exact [OF 1] by (simp add: snapshot_example_def records_with_def)
  show ?thesis
    using len m 1 2 3 4 by blast
qed

text \<open>
  Claim C6. Two snapshots that are permutations of each other are aggregated to the same
  result: the order of the records does not matter.
\<close>

theorem AggregateTasks_permutation:
  assumes "mset (Tasks t1) = mset (Tasks t2)"
  shows "AggregateTasks t1 = AggregateTasks t2"
proof -
  have "set (Tasks t1) = set (Tasks t2)"
    using assms by (rule mset_eq_setD)
  moreover have "records_with a (Tasks t1) = records_with a (Tasks t2)" for a
    using assms by (rule records_with_mset)
  ultimately have "aggregate_loop (Tasks t1) Map.empty a = aggregate_loop (Tasks t2) Map.empty a" for a
    by (simp add: aggregate_loop_empty_lookup)
  then have "aggregate_loop (Tasks t1) Map.empty = aggregate_loop (Tasks t2) Map.empty"
    by (rule ext)
  then show ?thesis
    by (simp add: AggregateTasks_eq)
qed

theorem AggregateTasks_permutation_witness:
  "mset (Tasks \<lparr>Tasks = [\<lparr>Action = ''a''\<rparr>, \<lparr>Action = ''b''\<rparr>, \<lparr>Action = ''a''\<rparr>]\<rparr>)
     = mset (Tasks \<lparr>Tasks = [\<lparr>Action = ''b''\<rparr>, \<lparr>Action = ''a''\<rparr>, \<lparr>Action = ''a''\<rparr>]\<rparr>) \<and>
   AggregateTasks \<lparr>Tasks = [\<lparr>Action = ''a''\<rparr>, \<lparr>Action = ''b''\<rparr>, \<lparr>Action = ''a''\<rparr>]\<rparr>
     = AggregateTasks \<lparr>Tasks = [\<lparr>Action = ''b''\<rparr>, \<lparr>Action = ''a''\<rparr>, \<lparr>Action = ''a''\<rparr>]\<rparr>"
proof -
  have h: "mset (Tasks \<lparr>Tasks = [\<lparr>Action = ''a''\<rparr>, \<lparr>Action = ''b''\<rparr>, \<lparr>Action = ''a''\<rparr>]\<rparr>)
     = mset (Tasks \<lparr>Tasks = [\<lparr>Action = ''b''\<rparr>, \<lparr>Action = ''a''\<rparr>, \<lparr>Action = ''a''\<rparr>]\<rparr>)"
    by simp
  show ?thesis
    using h AggregateTasks_permutation [OF h] by simp
qed

text \<open>
  Claim C10. \<^verbatim>\<open>AggregateTasks\<close> returns a pointer that is not \<^verbatim>\<open>nil\<close>, to a value whose map
  is not \<^verbatim>\<open>nil\<close>; every count stored is at least 1 (for a slice of fewer than \<open>2 ^ 63\<close>
  records, which every Go slice is); records whose action is the empty string are counted
  under the empty key; and a task object none of whose members selects the field
  \<^verbatim>\<open>action\<close> decodes to a record with the empty action.
\<close>

theorem AggregateTasks_non_nil:
  "\<exists>agg m. AggregateTasks t = Some agg \<and> CountByAction agg = Some m \<and>
     (length (Tasks t) < 2 ^ 63 \<longrightarrow> (\<forall>a c. m a = Some c \<longrightarrow> 1 \<le> sint c)) \<and>
     (0 < records_with [] (Tasks t) \<longrightarrow> m [] = Some (of_nat (records_with [] (Tasks t)))) \<and>
     (\<forall>fs. (\<forall>kv \<in> set fs. \<not> match_field env ''action'' (fst kv)) \<longrightarrow>
        decode_TaskResponse env (JObject fs) (\<lparr>Action = []\<rparr>, None) = (\<lparr>Action = []\<rparr>, None))"
proof (intro exI conjI allI impI)
  show "AggregateTasks t = Some \<lparr>CountByAction = Some (aggregate_loop (Tasks t) Map.empty)\<rparr>"
    by (rule AggregateTasks_eq)
  show "CountByAction \<lparr>CountByAction = Some (aggregate_loop (Tasks t) Map.empty)\<rparr>
      = Some (aggregate_loop (Tasks t) Map.empty)"
    by simp
next
  fix a c
  assume len: "length (Tasks t) < 2 ^ 63" and look: "aggregate_loop (Tasks t) Map.empty a = Some c"
  from look have c: "c = of_nat (records_with a (Tasks t))" and pos: "0 < records_with a (Tasks t)"
    by (simp_all add: aggregate_loop_lookup map_index_def split: if_splits)
  have "records_with a (Tasks t) < 2 ^ 63"
    using records_with_le_length [of a "Tasks t"] len by simp
  then have "sint c = int (records_with a (Tasks t))"
    unfolding c by (rule sint_of_nat_int64)
  then show "1 \<le> sint c"
    using pos by simp
next
  assume "0 < records_with [] (Tasks t)"
  then show "aggregate_loop (Tasks t) Map.empty [] = Some (of_nat (records_with [] (Tasks t)))"
    by (simp add: aggregate_loop_lookup map_index_def)
next
  fix fs :: "(string \<times> json) list"
  assume "\<forall>kv \<in> set fs. \<not> match_field env ''action'' (fst kv)"
  then show "decode_TaskResponse env (JObject fs) (\<lparr>Action = []\<rparr>, None) = (\<lparr>Action = []\<rparr>, None)"
    by (rule decode_TaskResponse_no_action)
qed

theorem AggregateTasks_non_nil_witness:
  "length (Tasks \<lparr>Tasks = [\<lparr>Action = []\<rparr>, \<lparr>Action = ''a''\<rparr>, \<lparr>Action = []\<rparr>]\<rparr>) < 2 ^ 63 \<and>
   0 < records_with [] (Tasks \<lparr>Tasks = [\<lparr>Action = []\<rparr>, \<lparr>Action = ''a''\<rparr>, \<lparr>Action = []\<rparr>]\<rparr>) \<and>
   \<not> match_field env_example ''action'' ''node'' \<and>
   (\<exists>agg m. AggregateTasks \<lparr>Tasks = [\<lparr>Action = []\<rparr>, \<lparr>Action = ''a''\<rparr>, \<lparr>Action = []\<rparr>]\<rparr> = Some agg \<and>
      CountByAction agg = Some m \<and> m [] = Some 2 \<and> m ''a'' = Some 1 \<and>
      (\<exists>c. m [] = Some c \<and> 1 \<le> sint c)) \<and>
   decode_TaskResponse env_example (JObject [(''node'', JString ''n1'')]) (\<lparr>Action = []\<rparr>, None)
     = (\<lparr>Action = []\<rparr>, None)"
proof -
  let ?t = "\<lparr>Tasks = [\<lparr>Action = []\<rparr>, \<lparr>Action = ''a''\<rparr>, \<lparr>Action = []\<rparr>]\<rparr>"
  have len: "length (Tasks ?t) < 2 ^ 63"
    by simp
  have pos: "0 < records_with [] (Tasks ?t)"
    by (simp add: records_with_def)
  have nomatch: "\<not> match_field env_example ''action'' ''node''"
    by (simp add: match_field_def env_example_def ascii_upper_def)
  then have all: "\<forall>kv \<in> set [(''node'', JString ''n1'')]. \<not> match_field env_example ''action'' (fst kv)"
    by simp
  obtain agg m where agg: "AggregateTasks ?t = Some agg" "CountByAction agg = Some m"
    and ge: "\<And>a c. m a = Some c \<Longrightarrow> 1 \<le> sint c"
    and empty: "m [] = Some (of_nat (records_with [] (Tasks ?t)))"
    and dec: "decode_TaskResponse env_example (JObject [(''node'', JString ''n1'')])
        (\<lparr>Action = []\<rparr>, None) = (\<lparr>Action = []\<rparr>, None)"
    using AggregateTasks_non_nil [of ?t env_example] len pos all by blast
  have m: "m = aggregate_loop (Tasks ?t) Map.empty"
    using agg by (auto simp add: AggregateTasks_eq simp del: aggregate_loop.simps)
  have 1: "m [] = Some 2"
    using empty by (simp add: records_with_def)
  have 2: "m ''a'' = Some 1"
    unfolding m by (simp add: aggregate_loop_empty_lookup records_with_def del: aggregate_loop.simps)
  have 3: "1 \<le> sint (2 :: int64)"
    using ge [OF 1] .
  show ?thesis
    using len pos nomatch agg 1 2 3 dec by blast
qed

section \<open>Properties of the request URL\<close>

lemma parseQuery_Nil: "parseQuery m [] err = (m, err)"
  by (simp add: parseQuery.simps)

lemma ResolveReference_tasks:
  "ResolveReference env base (URL_zero\<lparr>Path := ''_tasks''\<rparr>) =
     \<lparr>Scheme = Scheme base, Opaque = [], User = User base, Host = Host base,
      Path = fst (resolved_path env base (URL_zero\<lparr>Path := ''_tasks''\<rparr>)),
      RawPath = snd (resolved_path env base (URL_zero\<lparr>Path := ''_tasks''\<rparr>)),
      ForceQuery = False, RawQuery = [], Fragment = [], RawFragment = []\<rparr>"
  by (simp add: ResolveReference_def URL_zero_def setPath_def)

lemma QueryEscape_names:
  "QueryEscape ''group_by'' = ''group_by''" "QueryEscape ''actions'' = ''actions''"
  "QueryEscape ''none'' = ''none''"
  by (simp_all add: shouldEscape_def)

lemma Encode_two:
  "Encode [(''group_by'', [''none'']), (''actions'', [f])]
     = ''actions='' @ QueryEscape f @ ''&group_by=none''"
  by (simp add: Encode_def Values_index_def QueryEscape_names del: QueryEscape.simps)

lemma tasks_URL_eq:
  "tasks_URL env base =
     (ResolveReference env base (URL_zero\<lparr>Path := ''_tasks''\<rparr>))
       \<lparr>RawQuery := ''actions='' @ QueryEscape (actionFilter env) @ ''&group_by=none''\<rparr>"
  by (simp add: tasks_URL_def Query_def ResolveReference_tasks parseQuery_Nil Values_Set_def
      Encode_two del: QueryEscape.simps)

lemma less_16_cases:
  "k < 16 \<Longrightarrow> k = 0 \<or> k = 1 \<or> k = 2 \<or> k = 3 \<or> k = 4 \<or> k = 5 \<or> k = 6 \<or> k = 7 \<or> k = 8
     \<or> k = 9 \<or> k = 10 \<or> k = 11 \<or> k = 12 \<or> k = 13 \<or> k = 14 \<or> k = (15 :: nat)"
  by arith

lemma upperhex_digit:
  assumes "k < 16"
  shows "ishex (upperhex ! k)" and "unhex (upperhex ! k) = k"
    and "upperhex ! k \<notin> {CHR ''&'', CHR '';'', CHR ''=''}"
  using less_16_cases [OF assms]
  by (auto simp: upperhex_def ishex_def unhex_def)

lemma char_of_nibbles: "char_of ((of_char c :: nat) div 16 * 16 + of_char c mod 16) = c"
  by simp

lemma of_char_div_16: "(of_char c :: nat) div 16 < 16"
  using nat_of_char_less_256 [of c] by arith

lemma QueryUnescape_QueryEscape: "QueryUnescape (QueryEscape s) = Inr s"
proof (induction s)
  case Nil
  show ?case by simp
next
  case (Cons c s)
  show ?case
  proof (cases "c = CHR '' ''")
    case True
    then show ?thesis using Cons by simp
  next
    case space: False
    show ?thesis
    proof (cases "shouldEscape c")
      case True
      have hi: "(of_char c :: nat) div 16 < 16" by (rule of_char_div_16)
      have lo: "(of_char c :: nat) mod 16 < 16" by simp
      show ?thesis
        using True space Cons upperhex_digit(1,2) [OF hi] upperhex_digit(1,2) [OF lo]
        by (simp add: char_of_nibbles)
    next
      case False
      then have "c \<noteq> CHR ''%''" "c \<noteq> CHR ''+''"
        by (auto simp: shouldEscape_def)
      then show ?thesis
        using False space Cons by simp
    qed
  qed
qed

lemma QueryEscape_no_separator:
  "CHR ''&'' \<notin> set (QueryEscape s)" "CHR '';'' \<notin> set (QueryEscape s)"
  "CHR ''='' \<notin> set (QueryEscape s)"
proof (induction s)
  case Nil
  {
    case 1 show ?case by simp
  next
    case 2 show ?case by simp
  next
    case 3 show ?case by simp
  }
next
  case (Cons c s)
  have hi: "(of_char c :: nat) div 16 < 16" by (rule of_char_div_16)
  have lo: "(of_char c :: nat) mod 16 < 16" by simp
  have keep: "\<not> shouldEscape c \<Longrightarrow> c \<notin> {CHR ''&'', CHR '';'', CHR ''=''}"
    by (auto simp: shouldEscape_def)
  {
    case 1 show ?case
      using Cons.IH(1) upperhex_digit(3) [OF hi] upperhex_digit(3) [OF lo] keep by auto
  next
    case 2 show ?case
      using Cons.IH(2) upperhex_digit(3) [OF hi] upperhex_digit(3) [OF lo] keep by auto
  next
    case 3 show ?case
      using Cons.IH(3) upperhex_digit(3) [OF hi] upperhex_digit(3) [OF lo] keep by auto
  }
qed

lemma Cut_append: "sep \<notin> set a \<Longrightarrow> Cut (a @ sep # b) sep = (a, b)"
  by (induction a) (auto simp: Cut_def)

lemma Cut_none: "sep \<notin> set a \<Longrightarrow> Cut a sep = (a, [])"
  by (induction a) (auto simp: Cut_def)

lemma parseQuery_step:
  assumes "Cut query (CHR ''&'') = (seg, rest)" and "query \<noteq> []"
    and "CHR '';'' \<notin> set seg" and "seg \<noteq> []"
    and "Cut seg (CHR ''='') = (k, v)"
    and "QueryUnescape k = Inr k'" and "QueryUnescape v = Inr v'"
  shows "parseQuery m query err
      = parseQuery (Values_store m k' (Values_index m k' @ [v'])) rest err"
  by (subst parseQuery.simps) (simp add: assms)

lemma QueryUnescape_names:
  "QueryUnescape ''group_by'' = Inr ''group_by''" "QueryUnescape ''actions'' = Inr ''actions''"
  "QueryUnescape ''none'' = Inr ''none''"
  by simp_all

lemma parseQuery_tasks:
  "parseQuery [] (''actions='' @ QueryEscape f @ ''&group_by=none'') None
     = ([(''actions'', [f]), (''group_by'', [''none''])], None)"
proof -
  let ?E = "QueryEscape f"
  have cut1: "Cut ((''actions='' @ ?E) @ CHR ''&'' # ''group_by=none'') (CHR ''&'')
      = (''actions='' @ ?E, ''group_by=none'')"
    by (rule Cut_append) (simp add: QueryEscape_no_separator del: QueryEscape.simps)
  have cut2: "Cut (''actions'' @ CHR ''='' # ?E) (CHR ''='') = (''actions'', ?E)"
    by (rule Cut_append) simp
  have semi: "CHR '';'' \<notin> set (''actions='' @ ?E)"
    by (simp add: QueryEscape_no_separator del: QueryEscape.simps)
  have "parseQuery [] ((''actions='' @ ?E) @ CHR ''&'' # ''group_by=none'') None
      = parseQuery (Values_store [] ''actions'' (Values_index [] ''actions'' @ [f]))
          ''group_by=none'' None"
  proof (rule parseQuery_step [OF cut1 _ semi _ _ QueryUnescape_names(2) QueryUnescape_QueryEscape])
    show "Cut (''actions='' @ ?E) (CHR ''='') = (''actions'', ?E)"
      using cut2 by simp
  qed simp_all
  then have step1: "parseQuery [] (''actions='' @ ?E @ ''&group_by=none'') None
      = parseQuery [(''actions'', [f])] ''group_by=none'' None"
    by (simp add: Values_index_def del: QueryEscape.simps)
  have cut3: "Cut ''group_by=none'' (CHR ''&'') = (''group_by=none'', [])"
    by (rule Cut_none) simp
  have cut4: "Cut ''group_by=none'' (CHR ''='') = (''group_by'', ''none'')"
    using Cut_append [of "CHR ''=''" "''group_by''" "''none''"] by simp
  have "parseQuery [(''actions'', [f])] ''group_by=none'' None
      = parseQuery (Values_store [(''actions'', [f])] ''group_by''
          (Values_index [(''actions'', [f])] ''group_by'' @ [''none''])) [] None"
    by (rule parseQuery_step [OF cut3 _ _ _ cut4 QueryUnescape_names(1) QueryUnescape_names(3)])
      simp_all
  then have step2: "parseQuery [(''actions'', [f])] ''group_by=none'' None
      = ([(''actions'', [f]), (''group_by'', [''none''])], None)"
    by (simp add: Values_index_def parseQuery_Nil)
  show ?thesis
    using step1 step2 by simp
qed

section \<open>Properties of the fetch and of the collection cycle\<close>

lemma fetch_unfold:
  assumes "u t = Some base" and "hc t = Some client"
  shows "fetchAndDecodeAndAggregateTaskStats env t w =
     (case client (URL_String env (tasks_URL env base)) of
        Inl err \<Rightarrow>
          Return (w\<lparr>requests := requests w @ [URL_String env (tasks_URL env base)]\<rparr>, None,
            Some (errorString (''failed to get data stream stats health from ''
              @ Scheme (tasks_URL env base) @ ''://'' @ Hostname env (tasks_URL env base) @ '':''
              @ Port env (tasks_URL env base) @ Path (tasks_URL env base) @ '': '' @ Error err)))
      | Inr res \<Rightarrow>
          Return (snd (deferred_close t res
                    (fst (read_response env (tasks_URL env base) res
                       (w\<lparr>requests := requests w @ [URL_String env (tasks_URL env base)]\<rparr>)))),
                  snd (read_response env (tasks_URL env base) res
                       (w\<lparr>requests := requests w @ [URL_String env (tasks_URL env base)]\<rparr>))))"
  unfolding fetchAndDecodeAndAggregateTaskStats_def Let_def
  using assms by (simp split: sum.split prod.split)

lemma Update_unfold_error:
  assumes "fetchAndDecodeAndAggregateTaskStats env t w = Return (w', stats, Some e)"
  shows "Update env t w ch =
     Return (w', ch, Some (wrapError (''failed to fetch and decode task stats: '' @ Error e) e))"
  using assms by (simp add: Update_def)

lemma Update_error_inv:
  assumes "Update env t w ch = Return (w', ch', Some err)"
  shows "ch' = ch \<and> (\<exists>stats e. fetchAndDecodeAndAggregateTaskStats env t w = Return (w', stats, Some e)
      \<and> err = wrapError (''failed to fetch and decode task stats: '' @ Error e) e)"
  using assms
  by (auto simp: Update_def split: outcome.splits option.splits prod.splits)

lemma QueryEscape_default: "QueryEscape actionFilter_default = ''indices%3A%2A''"
  by (simp add: actionFilter_default_def shouldEscape_def upperhex_def)

lemma tasks_URL_example:
  "tasks_URL env_example base_example =
     \<lparr>Scheme = ''http'', Opaque = [], User = None, Host = ''localhost:9200'',
      Path = ''/_tasks'', RawPath = [], ForceQuery = False,
      RawQuery = ''actions=indices%3A%2A&group_by=none'', Fragment = [], RawFragment = []\<rparr>"
proof -
  have f: "actionFilter env_example = actionFilter_default"
    by (simp add: env_example_def)
  have r: "resolved_path env_example base_example (URL_zero\<lparr>Path := ''_tasks''\<rparr>) = (''/_tasks'', [])"
    by (simp add: env_example_def)
  have b: "Scheme base_example = ''http''" "User base_example = None"
    "Host base_example = ''localhost:9200''"
    by (simp_all add: base_example_def URL_zero_def)
  show ?thesis
    unfolding tasks_URL_eq ResolveReference_tasks f r b QueryEscape_default
    by simp
qed

lemma URL_String_example:
  "URL_String env_example (tasks_URL env_example base_example)
     = ''http://localhost:9200/_tasks?actions=indices%3A%2A&group_by=none''"
  unfolding tasks_URL_example by (simp add: env_example_def)

lemma Hostname_Port_example:
  "Hostname env_example (tasks_URL env_example base_example) = ''localhost''"
  "Port env_example (tasks_URL env_example base_example) = ''9200''"
  unfolding tasks_URL_example by (simp_all add: env_example_def)

lemma fetch_unreachable:
  "fetchAndDecodeAndAggregateTaskStats env_example collector_unreachable world_example =
     Return (world_example\<lparr>requests := [''http://localhost:9200/_tasks?actions=indices%3A%2A&group_by=none'']\<rparr>,
       None,
       Some (errorString ''failed to get data stream stats health from http://localhost:9200/_tasks: connection refused''))"
proof -
  have 1: "u collector_unreachable = Some base_example"
    and 2: "hc collector_unreachable = Some (\<lambda>url. Inl (libraryError ''connection refused''))"
    by (simp_all add: collector_unreachable_def)
  have 3: "requests world_example = []"
    by (simp add: world_example_def)
  show ?thesis
    unfolding fetch_unfold [OF 1 2] URL_String_example Hostname_Port_example 3
    by (simp add: tasks_URL_example)
qed

text \<open>
  Claim C2. When the fetch-and-decode step of a cycle fails with an error \<open>e\<close>, \<^verbatim>\<open>Update\<close>
  returns exactly one error, which wraps \<open>e\<close> under the message
  \<^verbatim>\<open>failed to fetch and decode task stats: \<close> followed by the message of \<open>e\<close>, and sends
  nothing on the channel. Conversely, whenever \<^verbatim>\<open>Update\<close> returns an error the channel is
  as it was before the call and the error is such a wrapped fetch error: a failed cycle
  emits no samples at all.
\<close>

theorem Update_failed_cycle:
  "(fetchAndDecodeAndAggregateTaskStats env t w = Return (w', stats, Some e) \<longrightarrow>
      Update env t w ch =
        Return (w', ch, Some (wrapError (''failed to fetch and decode task stats: '' @ Error e) e))
      \<and> Unwrap (wrapError (''failed to fetch and decode task stats: '' @ Error e) e) = Some e) \<and>
   (\<forall>w'' ch' err. Update env t w ch = Return (w'', ch', Some err) \<longrightarrow>
      ch' = ch \<and>
      (\<exists>st e'. fetchAndDecodeAndAggregateTaskStats env t w = Return (w'', st, Some e') \<and>
         err = wrapError (''failed to fetch and decode task stats: '' @ Error e') e'))"
proof (intro conjI impI allI)
  assume "fetchAndDecodeAndAggregateTaskStats env t w = Return (w', stats, Some e)"
  then show "Update env t w ch =
      Return (w', ch, Some (wrapError (''failed to fetch and decode task stats: '' @ Error e) e))"
    by (rule Update_unfold_error)
next
  show "Unwrap (wrapError (''failed to fetch and decode task stats: '' @ Error e) e) = Some e"
    by simp
next
  fix w'' ch' err
  assume a: "Update env t w ch = Return (w'', ch', Some err)"
  show "ch' = ch"
    using Update_error_inv [OF a] by blast
  show "\<exists>st e'. fetchAndDecodeAndAggregateTaskStats env t w = Return (w'', st, Some e') \<and>
      err = wrapError (''failed to fetch and decode task stats: '' @ Error e') e'"
    using Update_error_inv [OF a] by blast
qed

theorem Update_failed_cycle_witness:
  "fetchAndDecodeAndAggregateTaskStats env_example collector_unreachable world_example =
     Return (world_example\<lparr>requests := [''http://localhost:9200/_tasks?actions=indices%3A%2A&group_by=none'']\<rparr>,
       None,
       Some (errorString ''failed to get data stream stats health from http://localhost:9200/_tasks: connection refused'')) \<and>
   Update env_example collector_unreachable world_example [] =
     Return (world_example\<lparr>requests := [''http://localhost:9200/_tasks?actions=indices%3A%2A&group_by=none'']\<rparr>,
       [],
       Some (wrapError ''failed to fetch and decode task stats: failed to get data stream stats health from http://localhost:9200/_tasks: connection refused''
          (errorString ''failed to get data stream stats health from http://localhost:9200/_tasks: connection refused'')))"
proof -
  note f = fetch_unreachable
  have "Update env_example collector_unreachable world_example [] =
     Return (world_example\<lparr>requests := [''http://localhost:9200/_tasks?actions=indices%3A%2A&group_by=none'']\<rparr>,
       [],
       Some (wrapError (''failed to fetch and decode task stats: '' @
           Error (errorString ''failed to get data stream stats health from http://localhost:9200/_tasks: connection refused''))
          (errorString ''failed to get data stream stats health from http://localhost:9200/_tasks: connection refused'')))"
    by (rule Update_failed_cycle [THEN conjunct1, THEN mp, OF f, THEN conjunct1])
  then show ?thesis
    using f by simp
qed

lemma read_response_non_200:
  assumes "StatusCode res \<noteq> 200"
  shows "read_response env url res w =
     (w, None, Some (errorString (''HTTP Request to '' @ URL_String env url
                          @ '' failed with code '' @ fmt_d (StatusCode res))))"
  using assms by (simp add: read_response_def)

lemma deferred_close_fields:
  "requests (snd (deferred_close t res w)) = requests w"
  "body_reads (snd (deferred_close t res w)) = body_reads w"
  "body_closes (snd (deferred_close t res w)) = body_closes w + 1"
  "logs (snd (deferred_close t res w)) =
     (case Body_Close res of
        None \<Rightarrow> logs w
      | Some e \<Rightarrow> logs w @ [\<lparr>log_to = logger t, log_level = Warn,
                       keyvals = [(''msg'', Str ''failed to close http.Client''), (''err'', Err e)]\<rparr>])"
  by (simp_all add: deferred_close_def Let_def split: option.split)

lemma fmt_d_503: "fmt_d 503 = ''503''"
  by (simp add: fmt_d_def decimal.simps)

text \<open>
  Claim C4. When the response has a status code other than 200, the fetch fails with the
  error \<^verbatim>\<open>HTTP Request to <url> failed with code <status>\<close>, where the URL is the one
  that was requested and the status is printed in decimal; the body is not read (so it is
  not parsed), it is closed once, and the cycle sends no sample and returns the wrapped
  error.
\<close>

theorem non_200_status:
  assumes "u t = Some base" and "hc t = Some client"
    and "client (URL_String env (tasks_URL env base)) = Inr res"
    and "StatusCode res \<noteq> 200"
  shows "\<exists>w'. fetchAndDecodeAndAggregateTaskStats env t w =
           Return (w', None,
             Some (errorString (''HTTP Request to '' @ URL_String env (tasks_URL env base)
                     @ '' failed with code '' @ fmt_d (StatusCode res)))) \<and>
         requests w' = requests w @ [URL_String env (tasks_URL env base)] \<and>
         body_reads w' = body_reads w \<and>
         body_closes w' = body_closes w + 1 \<and>
         Update env t w ch =
           Return (w', ch,
             Some (wrapError (''failed to fetch and decode task stats: HTTP Request to ''
                     @ URL_String env (tasks_URL env base)
                     @ '' failed with code '' @ fmt_d (StatusCode res))
                    (errorString (''HTTP Request to '' @ URL_String env (tasks_URL env base)
                     @ '' failed with code '' @ fmt_d (StatusCode res)))))"
proof -
  let ?url = "URL_String env (tasks_URL env base)"
  let ?w1 = "w\<lparr>requests := requests w @ [?url]\<rparr>"
  let ?e = "errorString (''HTTP Request to '' @ ?url @ '' failed with code '' @ fmt_d (StatusCode res))"
  let ?w' = "snd (deferred_close t res ?w1)"
  have rr: "read_response env (tasks_URL env base) res ?w1 = (?w1, None, Some ?e)"
    using assms(4) by (rule read_response_non_200)
  have f: "fetchAndDecodeAndAggregateTaskStats env t w = Return (?w', None, Some ?e)"
    by (simp add: fetch_unfold [OF assms(1,2)] assms(3) rr)
  have up: "Update env t w ch =
      Return (?w', ch, Some (wrapError (''failed to fetch and decode task stats: '' @ Error ?e) ?e))"
    using f by (rule Update_unfold_error)
  show ?thesis
  proof (intro exI conjI)
    show "fetchAndDecodeAndAggregateTaskStats env t w = Return (?w', None, Some ?e)"
      by (rule f)
    show "requests ?w' = requests w @ [?url]"
      by (simp add: deferred_close_fields)
    show "body_reads ?w' = body_reads w"
      by (simp add: deferred_close_fields)
    show "body_closes ?w' = body_closes w + 1"
      by (simp add: deferred_close_fields)
    show "Update env t w ch =
           Return (?w', ch,
             Some (wrapError (''failed to fetch and decode task stats: HTTP Request to ''
                     @ ?url @ '' failed with code '' @ fmt_d (StatusCode res)) ?e))"
      using up by simp
  qed
qed

theorem non_200_status_witness:
  "u (collector_example response_unavailable) = Some base_example \<and>
   StatusCode response_unavailable \<noteq> 200 \<and>
   (\<exists>w'. fetchAndDecodeAndAggregateTaskStats env_example (collector_example response_unavailable)
            world_example =
           Return (w', None,
             Some (errorString ''HTTP Request to http://localhost:9200/_tasks?actions=indices%3A%2A&group_by=none failed with code 503'')) \<and>
         requests w' = [''http://localhost:9200/_tasks?actions=indices%3A%2A&group_by=none''] \<and>
         body_reads w' = 0 \<and> body_closes w' = 1 \<and>
         Update env_example (collector_example response_unavailable) world_example [] =
           Return (w', [],
             Some (wrapError ''failed to fetch and decode task stats: HTTP Request to http://localhost:9200/_tasks?actions=indices%3A%2A&group_by=none failed with code 503''
                    (errorString ''HTTP Request to http://localhost:9200/_tasks?actions=indices%3A%2A&group_by=none failed with code 503''))))"
proof -
  have 1: "u (collector_example response_unavailable) = Some base_example"
    and 2: "hc (collector_example response_unavailable) = Some (\<lambda>url. Inr response_unavailable)"
    by (simp_all add: collector_example_def)
  have 3: "(\<lambda>url. Inr response_unavailable) (URL_String env_example (tasks_URL env_example base_example))
      = (Inr response_unavailable :: go_error + Response)"
    by simp
  have 4: "StatusCode response_unavailable \<noteq> 200"
    by (simp add: response_unavailable_def)
  have 5: "StatusCode response_unavailable = 503"
    by (simp add: response_unavailable_def)
  have 6: "requests world_example = []" "body_reads world_example = 0" "body_closes world_example = 0"
    by (simp_all add: world_example_def)
  show ?thesis
    using non_200_status [where env = env_example and w = world_example and ch = "[]", OF 1 2 3 4] 1 4
    unfolding URL_String_example 5 fmt_d_503 6
    by simp
qed

lemma fetch_returns:
  assumes "u t = Some base" and "hc t = Some client"
  shows "\<exists>w' stats err. fetchAndDecodeAndAggregateTaskStats env t w = Return (w', stats, err) \<and>
     requests w' = requests w @ [URL_String env (tasks_URL env base)]"
proof (cases "client (URL_String env (tasks_URL env base))")
  case (Inl e)
  then show ?thesis
    by (simp add: fetch_unfold [OF assms])
next
  case (Inr res)
  obtain w1 stats err where rr: "read_response env (tasks_URL env base) res
      (w\<lparr>requests := requests w @ [URL_String env (tasks_URL env base)]\<rparr>) = (w1, stats, err)"
    by (cases "read_response env (tasks_URL env base) res
      (w\<lparr>requests := requests w @ [URL_String env (tasks_URL env base)]\<rparr>)") auto
  have "requests w1 = requests w @ [URL_String env (tasks_URL env base)]"
    using rr by (auto simp: read_response_def Let_def split: if_splits prod.splits option.splits sum.splits)
  then show ?thesis
    using Inr rr by (simp add: fetch_unfold [OF assms] deferred_close_fields)
qed

text \<open>
  Claim C5. Whatever the configured filter is, a fetch issues exactly one request, a GET
  of the URL whose path is \<^verbatim>\<open>_tasks\<close> resolved against the base URL (scheme, host and
  user of the base URL, no fragment) and whose query is \<^verbatim>\<open>actions=<filter>&group_by=none\<close>,
  the filter being percent-encoded as a query component. Read back as a query, it holds
  exactly the two parameters \<^verbatim>\<open>actions\<close>, equal to the configured filter byte for byte,
  and \<^verbatim>\<open>group_by\<close>, equal to \<^verbatim>\<open>none\<close>.
\<close>

theorem upstream_request:
  assumes "u t = Some base" and "hc t = Some client"
  shows "(\<exists>w' stats err. fetchAndDecodeAndAggregateTaskStats env t w = Return (w', stats, err) \<and>
            requests w' = requests w @ [URL_String env (tasks_URL env base)]) \<and>
         RawQuery (tasks_URL env base) = ''actions='' @ QueryEscape (actionFilter env) @ ''&group_by=none'' \<and>
         parseQuery [] (RawQuery (tasks_URL env base)) None =
           ([(''actions'', [actionFilter env]), (''group_by'', [''none''])], None) \<and>
         QueryUnescape (QueryEscape (actionFilter env)) = Inr (actionFilter env) \<and>
         (Path (tasks_URL env base), RawPath (tasks_URL env base)) =
           resolved_path env base (URL_zero\<lparr>Path := ''_tasks''\<rparr>) \<and>
         Scheme (tasks_URL env base) = Scheme base \<and>
         Host (tasks_URL env base) = Host base \<and>
         User (tasks_URL env base) = User base \<and>
         Opaque (tasks_URL env base) = [] \<and>
         Fragment (tasks_URL env base) = []"
proof -
  have q: "RawQuery (tasks_URL env base) = ''actions='' @ QueryEscape (actionFilter env) @ ''&group_by=none''"
    unfolding tasks_URL_eq by simp
  have p: "parseQuery [] (RawQuery (tasks_URL env base)) None =
           ([(''actions'', [actionFilter env]), (''group_by'', [''none''])], None)"
    unfolding q by (rule parseQuery_tasks)
  have rest: "(Path (tasks_URL env base), RawPath (tasks_URL env base)) =
           resolved_path env base (URL_zero\<lparr>Path := ''_tasks''\<rparr>)"
    "Scheme (tasks_URL env base) = Scheme base" "Host (tasks_URL env base) = Host base"
    "User (tasks_URL env base) = User base" "Opaque (tasks_URL env base) = []"
    "Fragment (tasks_URL env base) = []"
    unfolding tasks_URL_eq ResolveReference_tasks by simp_all
  show ?thesis
    using fetch_returns [OF assms, of env w] q p rest QueryUnescape_QueryEscape [of "actionFilter env"]
    by blast
qed

theorem upstream_request_witness:
  "u (collector_example response_example) = Some base_example \<and>
   actionFilter env_example = ''indices:*'' \<and>
   (\<exists>w' stats err.
      fetchAndDecodeAndAggregateTaskStats env_example (collector_example response_example)
        world_example = Return (w', stats, err) \<and>
      requests w' = [''http://localhost:9200/_tasks?actions=indices%3A%2A&group_by=none'']) \<and>
   RawQuery (tasks_URL env_example base_example) = ''actions=indices%3A%2A&group_by=none'' \<and>
   parseQuery [] ''actions=indices%3A%2A&group_by=none'' None =
     ([(''actions'', [''indices:*'']), (''group_by'', [''none''])], None)"
proof -
  have 1: "u (collector_example response_example) = Some base_example"
    and 2: "hc (collector_example response_example) = Some (\<lambda>url. Inr response_example)"
    by (simp_all add: collector_example_def)
  have f: "actionFilter env_example = ''indices:*''"
    by (simp add: env_example_def actionFilter_default_def)
  have q: "RawQuery (tasks_URL env_example base_example) = ''actions=indices%3A%2A&group_by=none''"
    unfolding tasks_URL_example by simp
  have r: "requests world_example = []"
    by (simp add: world_example_def)
  note inst = upstream_request [where env = env_example and w = world_example, OF 1 2]
  have a: "\<exists>w' stats err.
      fetchAndDecodeAndAggregateTaskStats env_example (collector_example response_example)
        world_example = Return (w', stats, err) \<and>
      requests w' = [''http://localhost:9200/_tasks?actions=indices%3A%2A&group_by=none'']"
    using inst [THEN conjunct1] unfolding URL_String_example r by simp
  have b: "parseQuery [] ''actions=indices%3A%2A&group_by=none'' None =
     ([(''actions'', [''indices:*'']), (''group_by'', [''none''])], None)"
    using inst [THEN conjunct2, THEN conjunct2, THEN conjunct1] unfolding q f .
  show ?thesis
    using 1 f a q b by blast
qed

end
